theory Spec2Isabelle
  imports Complex_Main
begin

section \<open>Numbers, rounding and risk levels\<close>

text \<open>
  The agents are TypeScript; every \<^verbatim>\<open>number\<close> is modelled as a \<^typ>\<open>real\<close> with exact
  arithmetic. Inputs are finite numbers, as \<^verbatim>\<open>JSON.parse\<close> delivers them; the rounding
  error of IEEE doubles and signed zeros are not part of the model. Where the source
  divides without a guard (the market agent), the non-finite results of JavaScript are
  modelled explicitly by \<open>jsnum\<close> below.

  \<^verbatim>\<open>Math.round\<close> rounds to the nearest integer, a half upwards.
\<close>

definition Math_round :: "real \<Rightarrow> real" where
  "Math_round x = of_int \<lfloor>x + 1 / 2\<rfloor>"

datatype risk_level = Low | Medium | High

text \<open>
  The bucketing of a score in the words of the specification (High only above 70), and
  the bucketing with High from 70 on.
\<close>

definition risk_level_of :: "real \<Rightarrow> risk_level" where
  "risk_level_of s = (if s < 40 then Low else if s \<le> 70 then Medium else High)"

definition blockchain_level_of :: "real \<Rightarrow> risk_level" where
  "blockchain_level_of s = (if s < 40 then Low else if s < 70 then Medium else High)"

text \<open>
  Truthiness of an optional string, as \<^verbatim>\<open>a || b\<close> and \<^verbatim>\<open>if (a)\<close> see it:
  \<^verbatim>\<open>undefined\<close>, \<^verbatim>\<open>null\<close> and the empty string are falsy.
\<close>

definition truthy :: "string option \<Rightarrow> bool" where
  "truthy s = (case s of None \<Rightarrow> False | Some t \<Rightarrow> t \<noteq> [])"

fun first_truthy :: "string option list \<Rightarrow> string \<Rightarrow> string" where
  "first_truthy [] dflt = dflt"
| "first_truthy (x # xs) dflt = (if truthy x then the x else first_truthy xs dflt)"


section \<open>The analysis agent: \<^verbatim>\<open>calculateComprehensiveRisk\<close>\<close>

text \<open>
  The records carry the fields of the four \<^verbatim>\<open>...RiskData\<close> interfaces that
  \<^verbatim>\<open>calculateComprehensiveRisk\<close> reads. A source of data that failed is \<^verbatim>\<open>null\<close>,
  here \<open>None\<close>.
\<close>

record BlockchainRiskData =
  bc_tokenAddress :: string
  bc_riskScore :: real
  bc_riskLevel :: risk_level
  bc_contractName :: "string option"
  bc_tokenSymbol :: "string option"
  bc_riskFactors :: "string list"

record SocialRiskData =
  so_projectName :: string
  so_sentimentScore :: real
  so_riskLevel :: risk_level
  so_riskFactors :: "string list"
  so_positiveFactors :: "string list"

record MarketRiskData =
  mk_symbol :: string
  mk_name :: string
  mk_riskScore :: real
  mk_riskLevel :: risk_level
  mk_riskFactors :: "string list"
  mk_positiveFactors :: "string list"

record DexRiskData =
  dx_token :: string
  dx_name :: string
  dx_dex_risk_score :: real
  dx_dex_risk_level :: risk_level
  dx_red_flags :: "string list"
  dx_positive_indicators :: "string list"

record RiskComponent =
  score :: real
  level :: risk_level
  keyIssues :: "string list"
  componentPositiveFactors :: "string list"

record RiskBreakdown =
  blockchain :: real
  social :: real
  market :: real
  dex :: real

record ComprehensiveRiskAssessment =
  projectName :: string
  tokenSymbol :: string
  tokenAddress :: "string option"
  overallRiskScore :: real
  overallRiskLevel :: risk_level
  blockchainRisk :: "RiskComponent option"
  socialRisk :: "RiskComponent option"
  marketRisk :: "RiskComponent option"
  dexRisk :: "RiskComponent option"
  riskBreakdown :: RiskBreakdown
  riskFactors :: "string list"
  positiveFactors :: "string list"
  analysisTime :: string

text \<open>
  The accumulation of the breakdown, the weighted score and the total weight: the four
  \<^verbatim>\<open>if (xData) { ... }\<close> blocks, in the order of the source. The result is the triple
  \<^verbatim>\<open>(riskBreakdown, weightedScore, totalWeight)\<close>.
\<close>

definition normalizedScore :: "SocialRiskData \<Rightarrow> real" where
  "normalizedScore sd = (1 - (so_sentimentScore sd + 1) / 2) * 100"

definition accumulate ::
  "BlockchainRiskData option \<Rightarrow> SocialRiskData option \<Rightarrow> MarketRiskData option \<Rightarrow>
   DexRiskData option \<Rightarrow> RiskBreakdown \<times> real \<times> real" where
  "accumulate blockchainData socialData marketData dexData =
    (let st0 = (\<lparr>blockchain = 0, social = 0, market = 0, dex = 0\<rparr>, 0, 0);
         st1 = (case blockchainData of None \<Rightarrow> st0
                | Some bd \<Rightarrow> (case st0 of (rb, ws, tw) \<Rightarrow>
                    (rb\<lparr>blockchain := bc_riskScore bd\<rparr>,
                     ws + bc_riskScore bd * 0.35, tw + 0.35)));
         st2 = (case socialData of None \<Rightarrow> st1
                | Some sd \<Rightarrow> (case st1 of (rb, ws, tw) \<Rightarrow>
                    (rb\<lparr>social := normalizedScore sd\<rparr>,
                     ws + normalizedScore sd * 0.2, tw + 0.2)));
         st3 = (case marketData of None \<Rightarrow> st2
                | Some md \<Rightarrow> (case st2 of (rb, ws, tw) \<Rightarrow>
                    (rb\<lparr>market := mk_riskScore md\<rparr>,
                     ws + mk_riskScore md * 0.25, tw + 0.25)));
         st4 = (case dexData of None \<Rightarrow> st3
                | Some dd \<Rightarrow> (case st3 of (rb, ws, tw) \<Rightarrow>
                    (rb\<lparr>dex := dx_dex_risk_score dd\<rparr>,
                     ws + dx_dex_risk_score dd * 0.2, tw + 0.2)))
     in st4)"

definition total_weight ::
  "BlockchainRiskData option \<Rightarrow> SocialRiskData option \<Rightarrow> MarketRiskData option \<Rightarrow>
   DexRiskData option \<Rightarrow> real" where
  "total_weight blockchainData socialData marketData dexData =
     snd (snd (accumulate blockchainData socialData marketData dexData))"

definition tagged :: "string \<Rightarrow> nat \<Rightarrow> string list \<Rightarrow> string list" where
  "tagged tag n factors = map (\<lambda>factor. tag @ factor) (take n factors)"

definition compileRiskFactors ::
  "BlockchainRiskData option \<Rightarrow> SocialRiskData option \<Rightarrow> MarketRiskData option \<Rightarrow>
   DexRiskData option \<Rightarrow> string list" where
  "compileRiskFactors blockchainData socialData marketData dexData =
     (case blockchainData of None \<Rightarrow> []
      | Some bd \<Rightarrow> tagged ''[Blockchain] '' 3 (bc_riskFactors bd))
   @ (case socialData of None \<Rightarrow> []
      | Some sd \<Rightarrow> tagged ''[Social] '' 2 (so_riskFactors sd))
   @ (case marketData of None \<Rightarrow> []
      | Some md \<Rightarrow> tagged ''[Market] '' 2 (mk_riskFactors md))
   @ (case dexData of None \<Rightarrow> []
      | Some dd \<Rightarrow> tagged ''[DEX] '' 2 (dx_red_flags dd))"

definition compilePositiveFactors ::
  "SocialRiskData option \<Rightarrow> MarketRiskData option \<Rightarrow> DexRiskData option \<Rightarrow> string list" where
  "compilePositiveFactors socialData marketData dexData =
     (case socialData of None \<Rightarrow> []
      | Some sd \<Rightarrow> tagged ''[Social] '' 2 (so_positiveFactors sd))
   @ (case marketData of None \<Rightarrow> []
      | Some md \<Rightarrow> tagged ''[Market] '' 2 (mk_positiveFactors md))
   @ (case dexData of None \<Rightarrow> []
      | Some dd \<Rightarrow> tagged ''[DEX] '' 2 (dx_positive_indicators dd))"

text \<open>
  \<^verbatim>\<open>calculateComprehensiveRisk\<close>. The time stamp \<^verbatim>\<open>new Date().toISOString()\<close> is the
  parameter \<open>now\<close>.
\<close>

definition calculateComprehensiveRisk ::
  "string \<Rightarrow> BlockchainRiskData option \<Rightarrow> SocialRiskData option \<Rightarrow>
   MarketRiskData option \<Rightarrow> DexRiskData option \<Rightarrow> string \<Rightarrow> ComprehensiveRiskAssessment" where
  "calculateComprehensiveRisk projectIdentifier blockchainData socialData marketData dexData now =
    (case accumulate blockchainData socialData marketData dexData of
       (breakdown, weightedScore, totalWeight) \<Rightarrow>
      (let overall = (if totalWeight > 0 then Math_round (weightedScore / totalWeight) else 50);
           overallLevel = (if overall < 40 then Low else if overall > 70 then High else Medium)
       in \<lparr> projectName = first_truthy
               [map_option so_projectName socialData, map_option mk_name marketData,
                Option.bind blockchainData bc_contractName, map_option dx_name dexData]
               projectIdentifier,
             tokenSymbol = first_truthy
               [map_option mk_symbol marketData, Option.bind blockchainData bc_tokenSymbol,
                map_option dx_token dexData]
               projectIdentifier,
             tokenAddress =
               (if truthy (map_option bc_tokenAddress blockchainData)
                then map_option bc_tokenAddress blockchainData else None),
             overallRiskScore = overall,
             overallRiskLevel = overallLevel,
             blockchainRisk = map_option (\<lambda>bd.
               \<lparr> score = bc_riskScore bd, level = bc_riskLevel bd,
                 keyIssues = take 3 (bc_riskFactors bd),
                 componentPositiveFactors = [] \<rparr>) blockchainData,
             socialRisk = map_option (\<lambda>sd.
               \<lparr> score = social breakdown, level = so_riskLevel sd,
                 keyIssues = take 3 (so_riskFactors sd),
                 componentPositiveFactors = take 3 (so_positiveFactors sd) \<rparr>) socialData,
             marketRisk = map_option (\<lambda>md.
               \<lparr> score = mk_riskScore md, level = mk_riskLevel md,
                 keyIssues = take 3 (mk_riskFactors md),
                 componentPositiveFactors = take 3 (mk_positiveFactors md) \<rparr>) marketData,
             dexRisk = map_option (\<lambda>dd.
               \<lparr> score = dx_dex_risk_score dd, level = dx_dex_risk_level dd,
                 keyIssues = take 3 (dx_red_flags dd),
                 componentPositiveFactors = take 3 (dx_positive_indicators dd) \<rparr>) dexData,
             riskBreakdown = breakdown,
             riskFactors = compileRiskFactors blockchainData socialData marketData dexData,
             positiveFactors = compilePositiveFactors socialData marketData dexData,
             analysisTime = now \<rparr>))"

text \<open>
  The capability \<^verbatim>\<open>performRiskAssessment\<close>, from the four fetched records on: with no
  data at all it answers with an error and computes no assessment.
\<close>

definition performRiskAssessment ::
  "string \<Rightarrow> BlockchainRiskData option \<Rightarrow> SocialRiskData option \<Rightarrow>
   MarketRiskData option \<Rightarrow> DexRiskData option \<Rightarrow> string \<Rightarrow>
   string + ComprehensiveRiskAssessment" where
  "performRiskAssessment projectIdentifier blockchainData socialData marketData dexData now =
    (if blockchainData = None \<and> socialData = None \<and> marketData = None \<and> dexData = None
     then Inl (''Insufficient data available for '' @ projectIdentifier)
     else Inr (calculateComprehensiveRisk projectIdentifier
                 blockchainData socialData marketData dexData now))"

text \<open>
  The renormalised weighted mean in the words of the specification: the categories, their
  fixed weights, the score of a category whose signal is present, and the mean over the
  present categories.
\<close>

datatype category = Blockchain | Social | Market | Dex

definition categories :: "category list" where
  "categories = [Blockchain, Social, Market, Dex]"

fun spec_weight :: "category \<Rightarrow> real" where
  "spec_weight Blockchain = 0.35"
| "spec_weight Social = 0.20"
| "spec_weight Market = 0.25"
| "spec_weight Dex = 0.20"

fun signal_score ::
  "BlockchainRiskData option \<Rightarrow> SocialRiskData option \<Rightarrow> MarketRiskData option \<Rightarrow>
   DexRiskData option \<Rightarrow> category \<Rightarrow> real option" where
  "signal_score b s m d Blockchain = map_option bc_riskScore b"
| "signal_score b s m d Social = map_option normalizedScore s"
| "signal_score b s m d Market = map_option mk_riskScore m"
| "signal_score b s m d Dex = map_option dx_dex_risk_score d"

definition present ::
  "BlockchainRiskData option \<Rightarrow> SocialRiskData option \<Rightarrow> MarketRiskData option \<Rightarrow>
   DexRiskData option \<Rightarrow> category list" where
  "present b s m d = filter (\<lambda>c. signal_score b s m d c \<noteq> None) categories"


fun breakdown_of :: "RiskBreakdown \<Rightarrow> category \<Rightarrow> real" where
  "breakdown_of rb Blockchain = blockchain rb"
| "breakdown_of rb Social = social rb"
| "breakdown_of rb Market = market rb"
| "breakdown_of rb Dex = dex rb"

fun component_of :: "ComprehensiveRiskAssessment \<Rightarrow> category \<Rightarrow> RiskComponent option" where
  "component_of a Blockchain = blockchainRisk a"
| "component_of a Social = socialRisk a"
| "component_of a Market = marketRisk a"
| "component_of a Dex = dexRisk a"




definition sample_market :: "real \<Rightarrow> MarketRiskData" where
  "sample_market sc =
     \<lparr> mk_symbol = ''TEST'', mk_name = ''Test Coin'', mk_riskScore = sc,
       mk_riskLevel = Medium, mk_riskFactors = [''Market risk factor''],
       mk_positiveFactors = [] \<rparr>"

definition sample_dex :: "real \<Rightarrow> DexRiskData" where
  "sample_dex sc =
     \<lparr> dx_token = ''TEST'', dx_name = ''Test Token'', dx_dex_risk_score = sc,
       dx_dex_risk_level = Medium, dx_red_flags = [''DEX risk factor''],
       dx_positive_indicators = [] \<rparr>"


section \<open>The blockchain agent: \<^verbatim>\<open>calculateBlockchainRiskScore\<close>\<close>

text \<open>
  \<^verbatim>\<open>contractInfo\<close> and \<^verbatim>\<open>tokenInfo\<close> are untyped objects in the source; the records hold
  the fields the scorer reads. \<^verbatim>\<open>createdTimestamp\<close> is the time stamp string of the first
  transaction or \<^verbatim>\<open>null\<close>; a string that is present is modelled by the integer (seconds)
  that \<^verbatim>\<open>parseInt\<close> reads from it. The texts of \<^verbatim>\<open>identifyRiskFactors\<close> are not
  modelled.
\<close>

record TokenHolder =
  address :: string
  balance :: string
  percentage :: real

record Transaction =
  tx_hash :: string
  tx_timeStamp :: string
  tx_value :: string

datatype severity = SevHigh | SevMedium | SevLow | SevInfo

record SecurityPattern =
  sp_name :: string
  sp_description :: string
  sp_severity :: severity
  sp_found :: bool

record ContractInfo =
  ci_name :: "string option"
  createdTimestamp :: "int option"
  implementation :: "string option"
  sourceCode :: "string option"

record TokenInfo =
  ti_name :: "string option"
  ti_symbol :: "string option"

record ConcentrationMetrics =
  topHolderPercentage :: real
  top10Percentage :: real
  holderCount :: nat

definition calculateConcentrationMetrics :: "TokenHolder list \<Rightarrow> ConcentrationMetrics" where
  "calculateConcentrationMetrics holders =
    (if length holders = 0
     then \<lparr>topHolderPercentage = 0, top10Percentage = 0, holderCount = 0\<rparr>
     else
       (let sortedHolders = sort_key (\<lambda>h. - percentage h) holders;
            top = (case sortedHolders of [] \<Rightarrow> 0 | h # _ \<Rightarrow> percentage h);
            top10 = foldl (\<lambda>acc holder. acc + percentage holder) 0 (take 10 sortedHolders)
        in \<lparr>topHolderPercentage = top, top10Percentage = top10,
             holderCount = length holders\<rparr>))"

text \<open>
  The age of the contract in whole days; \<open>now\<close> is \<^verbatim>\<open>new Date().getTime()\<close>, in ms.
  In the scorers a conditional \<^verbatim>\<open>score += k\<close> is an addend that is \<open>k\<close> under the
  condition and 0 otherwise, and the steps follow the order of the source.
\<close>

definition ageInDays :: "int \<Rightarrow> int \<Rightarrow> int" where
  "ageInDays now ts = \<lfloor>(real_of_int now - real_of_int (ts * 1000)) / (1000 * 60 * 60 * 24)\<rfloor>"

definition calculateBlockchainRiskScore ::
  "bool \<Rightarrow> ContractInfo \<Rightarrow> TokenInfo \<Rightarrow> TokenHolder list \<Rightarrow> Transaction list \<Rightarrow>
   SecurityPattern list \<Rightarrow> int \<Rightarrow> real" where
  "calculateBlockchainRiskScore isVerified contractInfo tokenInfo holderDistribution
     transactionHistory securityPatterns now =
    (let score0 = (0::real);
         score1 = score0 + (if \<not> isVerified then 50 else 0);
         score2 = score1 + (if truthy (implementation contractInfo) then 20 else 0);
         score3 = score2 + (if \<not> truthy (ti_name tokenInfo) \<or> \<not> truthy (ti_symbol tokenInfo)
                            then 10 else 0);
         score4 = score3 + (case createdTimestamp contractInfo of
                              Some ts \<Rightarrow>
                                (if ageInDays now ts < 7 then 20
                                 else if ageInDays now ts < 30 then 10
                                 else if ageInDays now ts < 90 then 5
                                 else 0)
                            | None \<Rightarrow> 5);
         metrics = calculateConcentrationMetrics holderDistribution;
         score5 = score4 + (if topHolderPercentage metrics > 50 then 30
                            else if topHolderPercentage metrics > 20 then 15
                            else if topHolderPercentage metrics > 10 then 5
                            else 0);
         score6 = score5 + (if top10Percentage metrics > 90 then 20
                            else if top10Percentage metrics > 80 then 10
                            else if top10Percentage metrics > 70 then 5
                            else 0);
         score7 = foldl (\<lambda>score pattern.
                     score + (case sp_severity pattern of
                                SevHigh \<Rightarrow> 20
                              | SevMedium \<Rightarrow> 10
                              | SevLow \<Rightarrow> 5
                              | SevInfo \<Rightarrow> 0)) score6 securityPatterns
     in min 100 score7)"

text \<open>
  The capability \<^verbatim>\<open>assessBlockchainRisk\<close>, from the fetched data on. \<open>codePatterns\<close> is
  what \<^verbatim>\<open>analyzeContractCode\<close> finds in the source code; it is consulted only for a
  verified contract whose source code is present.
\<close>

record BlockchainRiskResult =
  br_riskScore :: real
  br_riskLevel :: risk_level
  br_isVerified :: bool
  br_holderConcentration :: ConcentrationMetrics

definition assessBlockchainRisk ::
  "bool \<Rightarrow> ContractInfo \<Rightarrow> TokenInfo \<Rightarrow> TokenHolder list \<Rightarrow> Transaction list \<Rightarrow>
   SecurityPattern list \<Rightarrow> int \<Rightarrow> BlockchainRiskResult" where
  "assessBlockchainRisk isVerified contractInfo tokenInfo holderDistribution
     transactionHistory codePatterns now =
    (let securityAnalysis =
           (if isVerified \<and> truthy (sourceCode contractInfo) then codePatterns else []);
         riskScore = calculateBlockchainRiskScore isVerified contractInfo tokenInfo
                       holderDistribution transactionHistory securityAnalysis now
     in \<lparr> br_riskScore = riskScore,
           br_riskLevel = (if riskScore \<ge> 70 then High
                           else if riskScore \<ge> 40 then Medium else Low),
           br_isVerified = isVerified,
           br_holderConcentration = calculateConcentrationMetrics holderDistribution \<rparr>)"

text \<open>
  A sample contract, with the creation time stamp and the proxy implementation left
  open, a token with name and symbol, and a current time (in ms) more than three years
  after the time stamp 1600000000.
\<close>

definition sample_contract :: "int option \<Rightarrow> string option \<Rightarrow> ContractInfo" where
  "sample_contract created impl =
     \<lparr> ci_name = Some ''Test'', createdTimestamp = created, implementation = impl,
       sourceCode = None \<rparr>"

definition sample_token :: TokenInfo where
  "sample_token = \<lparr> ti_name = Some ''Test Token'', ti_symbol = Some ''TEST'' \<rparr>"

definition sample_now :: int where
  "sample_now = 1700000000000"


section \<open>The social agent: \<^verbatim>\<open>calculateTwitterRiskAssessment\<close>\<close>

datatype sentiment = Positive | Neutral | Negative

record TwitterTweet =
  tweet_text :: string
  like_count :: real
  retweet_count :: real
  reply_count :: real

record TwitterSentimentAnalysis =
  tweet :: TwitterTweet
  sentiment :: sentiment
  sentimentScore :: real

record TwitterUser =
  verified :: bool
  followers_count :: real

record SentimentBreakdown =
  sb_positive :: real
  sb_neutral :: real
  sb_negative :: real

record TwitterRiskAssessment =
  overallSentiment :: sentiment
  overallSentimentScore :: real
  tw_riskScore :: real
  tw_riskLevel :: risk_level
  tw_redFlags :: "string list"
  tw_positiveIndicators :: "string list"
  tweetCount :: nat
  recentTweets :: "TwitterSentimentAnalysis list"
  userInfo :: "TwitterUser option"
  tweetFrequency :: real
  engagementRate :: real
  sentimentBreakdown :: SentimentBreakdown

text \<open>
  The decimal numeral of a natural number, as a template string prints it, and
  \<^verbatim>\<open>if (c) xs.push(s)\<close> on a list under construction.
\<close>

fun string_of_nat :: "nat \<Rightarrow> string" where
  "string_of_nat n =
     (if n < 10 then [char_of (48 + n)]
      else string_of_nat (n div 10) @ [char_of (48 + n mod 10)])"

definition push_if :: "bool \<Rightarrow> string \<Rightarrow> string list \<Rightarrow> string list" where
  "push_if c s xs = (if c then xs @ [s] else xs)"

definition calculateTwitterRiskAssessment ::
  "TwitterSentimentAnalysis list \<Rightarrow> TwitterUser option \<Rightarrow> TwitterRiskAssessment" where
  "calculateTwitterRiskAssessment tweetSentiments user =
    (if length tweetSentiments = 0 then
       \<lparr> overallSentiment = Neutral, overallSentimentScore = 0,
         tw_riskScore = 50, tw_riskLevel = Medium,
         tw_redFlags = [''No recent Twitter activity found''],
         tw_positiveIndicators = [],
         tweetCount = 0, recentTweets = [], userInfo = user,
         tweetFrequency = 0, engagementRate = 0,
         sentimentBreakdown = \<lparr>sb_positive = 0, sb_neutral = 100, sb_negative = 0\<rparr> \<rparr>
     else
      (let n = real (length tweetSentiments);
           totalSentimentScore = foldl (\<lambda>sum item. sum + sentimentScore item) 0 tweetSentiments;
           overallScore = totalSentimentScore / n;
           sent0 = Neutral;
           sent1 = (if overallScore > 0.1 then Positive else sent0);
           sent2 = (if overallScore < - 0.1 then Negative else sent1);
           riskScore = Math_round (((1 - overallScore) / 2) * 100);
           level0 = Medium;
           level1 = (if riskScore < 40 then Low else level0);
           level2 = (if riskScore > 70 then High else level1);
           positiveTweets = real (length (filter (\<lambda>t. sentiment t = Positive) tweetSentiments));
           negativeTweets = real (length (filter (\<lambda>t. sentiment t = Negative) tweetSentiments));
           neutralTweets = n - positiveTweets - negativeTweets;
           breakdown = \<lparr> sb_positive = Math_round ((positiveTweets / n) * 100),
                         sb_neutral = Math_round ((neutralTweets / n) * 100),
                         sb_negative = Math_round ((negativeTweets / n) * 100) \<rparr>;
           totalLikes = foldl (\<lambda>sum item. sum + like_count (tweet item)) 0 tweetSentiments;
           totalRetweets = foldl (\<lambda>sum item. sum + retweet_count (tweet item)) 0 tweetSentiments;
           totalReplies = foldl (\<lambda>sum item. sum + reply_count (tweet item)) 0 tweetSentiments;
           engagement = (if n > 0 then (totalLikes + totalRetweets + totalReplies) / n else 0);
           red1 = push_if (sb_negative breakdown > 50)
                    ''Majority negative sentiment on Twitter'' [];
           red2 = push_if (length tweetSentiments < 10)
                    ''Very low Twitter discussion volume'' red1;
           red3 = push_if (engagement < 1)
                    ''Low engagement with tweets about this project'' red2;
           red4 = push_if (case user of None \<Rightarrow> False | Some u \<Rightarrow> \<not> verified u)
                    ''Official Twitter account is not verified'' red3;
           red5 = push_if (case user of None \<Rightarrow> False | Some u \<Rightarrow> followers_count u < 1000)
                    ''Official account has very few followers'' red4;
           pos1 = push_if (sb_positive breakdown > 60)
                    ''Strong positive sentiment on Twitter'' [];
           pos2 = push_if (length tweetSentiments > 50)
                    ''High volume of Twitter discussion'' pos1;
           pos3 = push_if (engagement > 10)
                    ''High engagement with tweets about this project'' pos2;
           pos4 = push_if (case user of None \<Rightarrow> False | Some u \<Rightarrow> verified u)
                    ''Project has a verified official Twitter account'' pos3;
           pos5 = push_if (case user of None \<Rightarrow> False | Some u \<Rightarrow> followers_count u > 100000)
                    ''Official account has a large follower base'' pos4
       in \<lparr> overallSentiment = sent2, overallSentimentScore = overallScore,
             tw_riskScore = riskScore, tw_riskLevel = level2,
             tw_redFlags = red5, tw_positiveIndicators = pos5,
             tweetCount = length tweetSentiments,
             recentTweets = take 5 tweetSentiments, userInfo = user,
             tweetFrequency = n, engagementRate = engagement,
             sentimentBreakdown = breakdown \<rparr>))"




section \<open>The market agent: \<^verbatim>\<open>calculateMarketRiskAssessment\<close>\<close>

text \<open>
  The market agent divides the volume by the market capitalisation, and a price
  difference by the previous price, without a guard. A JavaScript division by zero
  gives an infinity or \<^verbatim>\<open>NaN\<close>, which then runs through the later arithmetic and fails
  every comparison if it is \<^verbatim>\<open>NaN\<close>. The values computed from these quotients are
  therefore of type \<open>jsnum\<close>.
\<close>

datatype jsnum = Fin real | PosInf | NegInf | NaN

fun js_neg :: "jsnum \<Rightarrow> jsnum" where
  "js_neg (Fin x) = Fin (- x)"
| "js_neg PosInf = NegInf"
| "js_neg NegInf = PosInf"
| "js_neg NaN = NaN"

fun js_add :: "jsnum \<Rightarrow> jsnum \<Rightarrow> jsnum" where
  "js_add (Fin x) (Fin y) = Fin (x + y)"
| "js_add NaN b = NaN"
| "js_add a NaN = NaN"
| "js_add PosInf NegInf = NaN"
| "js_add NegInf PosInf = NaN"
| "js_add PosInf b = PosInf"
| "js_add a PosInf = PosInf"
| "js_add NegInf b = NegInf"
| "js_add a NegInf = NegInf"

definition js_sub :: "jsnum \<Rightarrow> jsnum \<Rightarrow> jsnum" where
  "js_sub a b = js_add a (js_neg b)"

text \<open>The sign of a product or quotient with an infinite operand.\<close>

definition signed_inf :: "bool \<Rightarrow> jsnum" where
  "signed_inf nonneg = (if nonneg then PosInf else NegInf)"

fun js_mul :: "jsnum \<Rightarrow> jsnum \<Rightarrow> jsnum" where
  "js_mul (Fin x) (Fin y) = Fin (x * y)"
| "js_mul NaN b = NaN"
| "js_mul a NaN = NaN"
| "js_mul (Fin x) PosInf = (if x = 0 then NaN else signed_inf (x > 0))"
| "js_mul (Fin x) NegInf = (if x = 0 then NaN else signed_inf (x < 0))"
| "js_mul PosInf (Fin y) = (if y = 0 then NaN else signed_inf (y > 0))"
| "js_mul NegInf (Fin y) = (if y = 0 then NaN else signed_inf (y < 0))"
| "js_mul PosInf PosInf = PosInf"
| "js_mul PosInf NegInf = NegInf"
| "js_mul NegInf PosInf = NegInf"
| "js_mul NegInf NegInf = PosInf"

fun js_div :: "jsnum \<Rightarrow> jsnum \<Rightarrow> jsnum" where
  "js_div (Fin x) (Fin y) =
     (if y \<noteq> 0 then Fin (x / y) else if x = 0 then NaN else signed_inf (x > 0))"
| "js_div NaN b = NaN"
| "js_div a NaN = NaN"
| "js_div (Fin x) PosInf = Fin 0"
| "js_div (Fin x) NegInf = Fin 0"
| "js_div PosInf (Fin y) = signed_inf (y \<ge> 0)"
| "js_div NegInf (Fin y) = signed_inf (y < 0)"
| "js_div PosInf b = NaN"
| "js_div NegInf b = NaN"

fun js_sqrt :: "jsnum \<Rightarrow> jsnum" where
  "js_sqrt (Fin x) = (if x \<ge> 0 then Fin (sqrt x) else NaN)"
| "js_sqrt PosInf = PosInf"
| "js_sqrt NegInf = NaN"
| "js_sqrt NaN = NaN"

text \<open>Comparison with a finite constant: \<^verbatim>\<open>a < c\<close> and \<^verbatim>\<open>a > c\<close>.\<close>

fun js_lt :: "jsnum \<Rightarrow> real \<Rightarrow> bool" where
  "js_lt (Fin x) c = (x < c)"
| "js_lt NegInf c = True"
| "js_lt PosInf c = False"
| "js_lt NaN c = False"

fun js_gt :: "jsnum \<Rightarrow> real \<Rightarrow> bool" where
  "js_gt (Fin x) c = (x > c)"
| "js_gt PosInf c = True"
| "js_gt NegInf c = False"
| "js_gt NaN c = False"

text \<open>
  \<^verbatim>\<open>calculatePriceVolatility\<close>: the standard deviation of the day-over-day returns.
\<close>

definition calculatePriceVolatility :: "real list \<Rightarrow> jsnum" where
  "calculatePriceVolatility prices =
    (if length prices < 2 then Fin 0
     else
      (let returns = map (\<lambda>i. js_div (Fin (prices ! i - prices ! (i - 1)))
                                       (Fin (prices ! (i - 1))))
                         [1..<length prices];
           mean = js_div (foldl (\<lambda>sum v. js_add sum v) (Fin 0) returns)
                         (Fin (real (length returns)));
           variance = js_div
                        (foldl (\<lambda>sum v. js_add sum
                                  (js_mul (js_sub v mean) (js_sub v mean))) (Fin 0) returns)
                        (Fin (real (length returns)))
       in js_sqrt variance))"

text \<open>
  Of \<^verbatim>\<open>CoinData\<close> the record holds the fields that enter the score, the flags and the
  levels; the metric table, the price trend and the descriptions, which are display
  only, are left out. \<^verbatim>\<open>priceHistory\<close> is a dictionary of series or \<^verbatim>\<open>null\<close>.
\<close>

record CoinData =
  cd_symbol :: string
  cd_name :: string
  market_cap :: real
  market_cap_rank :: real
  total_volume :: real
  ath_change_percentage :: real

record LevelledScore =
  ls_score :: jsnum
  ls_level :: risk_level

record MarketRiskAssessment =
  ma_name :: string
  ma_marketCap :: real
  ma_marketCapRank :: real
  ma_riskScore :: real
  ma_riskLevel :: risk_level
  ma_redFlags :: "string list"
  ma_positiveIndicators :: "string list"
  ma_liquidity :: LevelledScore
  ma_volatility :: LevelledScore

definition calculateMarketRiskAssessment ::
  "CoinData \<Rightarrow> (string \<rightharpoonup> (real \<times> real) list) option \<Rightarrow> MarketRiskAssessment" where
  "calculateMarketRiskAssessment coinData priceHistory =
    (let series = (case priceHistory of None \<Rightarrow> None | Some h \<Rightarrow> h ''prices'');
         computed = (case series of None \<Rightarrow> False | Some ps \<Rightarrow> length ps > 1);
         volatilityScore =
           (if computed then calculatePriceVolatility (map snd (the series)) else Fin 0);
         volatilityLevel =
           (if computed then
              (if js_lt volatilityScore 0.03 then Low
               else if js_gt volatilityScore 0.08 then High else Medium)
            else Medium);
         volumeToMarketCapRatio = js_div (Fin (total_volume coinData)) (Fin (market_cap coinData));
         liquidityScore = js_mul volumeToMarketCapRatio (Fin 100);
         liquidityLevel =
           (if js_lt liquidityScore 3 then Low
            else if js_gt liquidityScore 15 then High else Medium);
         red1 = push_if (market_cap coinData < 5000000)
                  ''Very low market capitalization (<$5M) indicates higher risk'' [];
         red2 = push_if (js_lt volumeToMarketCapRatio 0.02)
                  ''Low trading volume relative to market cap may cause price slippage'' red1;
         red3 = push_if (js_gt volatilityScore 0.1)
                  ''Extremely high price volatility'' red2;
         red4 = push_if (market_cap_rank coinData > 1000)
                  ''Very low market cap ranking'' red3;
         red5 = push_if (ath_change_percentage coinData < - 90)
                  ''Price is down over 90% from all-time high'' red4;
         pos1 = push_if (market_cap coinData > 1000000000)
                  ''Large market capitalization (>$1B) suggests established project'' [];
         pos2 = push_if (market_cap_rank coinData \<le> 50)
                  ''Top 50 cryptocurrency by market cap'' pos1;
         pos3 = push_if (js_gt volumeToMarketCapRatio 0.15)
                  ''High trading volume indicates strong market interest'' pos2;
         pos4 = push_if (js_lt volatilityScore 0.02)
                  ''Low price volatility suggests price stability'' pos3;
         riskScore0 = (50::real);
         riskScore1 = riskScore0 +
           (if market_cap coinData > 10000000000 then - 15
            else if market_cap coinData > 1000000000 then - 10
            else if market_cap coinData < 10000000 then 15
            else if market_cap coinData < 100000000 then 5
            else 0);
         riskScore2 = riskScore1 +
           (if market_cap_rank coinData \<le> 10 then - 15
            else if market_cap_rank coinData \<le> 50 then - 10
            else if market_cap_rank coinData \<le> 100 then - 5
            else if market_cap_rank coinData > 500 then 10
            else if market_cap_rank coinData > 1000 then 15
            else 0);
         riskScore3 = riskScore2 +
           (if js_gt volumeToMarketCapRatio 0.2 then - 10
            else if js_gt volumeToMarketCapRatio 0.1 then - 5
            else if js_lt volumeToMarketCapRatio 0.02 then 15
            else if js_lt volumeToMarketCapRatio 0.05 then 5
            else 0);
         riskScore4 = riskScore3 +
           (if js_gt volatilityScore 0.1 then 15
            else if js_gt volatilityScore 0.05 then 5
            else if js_lt volatilityScore 0.02 then - 5
            else 0);
         riskScore5 = riskScore4 +
           (if ath_change_percentage coinData > - 20 then - 5
            else if ath_change_percentage coinData < - 80 then 5
            else 0);
         riskScore = max 0 (min 100 riskScore5);
         riskLevel = (if riskScore < 40 then Low else if riskScore > 70 then High else Medium)
     in \<lparr> ma_name = cd_name coinData,
           ma_marketCap = market_cap coinData,
           ma_marketCapRank = market_cap_rank coinData,
           ma_riskScore = riskScore,
           ma_riskLevel = riskLevel,
           ma_redFlags = red5,
           ma_positiveIndicators = pos4,
           ma_liquidity = \<lparr>ls_score = liquidityScore, ls_level = liquidityLevel\<rparr>,
           ma_volatility = \<lparr>ls_score = js_mul volatilityScore (Fin 100),
                             ls_level = volatilityLevel\<rparr> \<rparr>)"

text \<open>
  A sample coin in the neutral tier of every factor but the rank, which is left open:
  market capitalisation 500M, volume 7% of it, 50% below the all-time high, and a price
  series whose daily returns are +4% and -3%, of volatility 0.035.
\<close>

definition sample_coin :: "real \<Rightarrow> CoinData" where
  "sample_coin rank =
     \<lparr> cd_symbol = ''test'', cd_name = ''Test Coin'', market_cap = 500000000,
       market_cap_rank = rank, total_volume = 35000000, ath_change_percentage = - 50 \<rparr>"

definition sample_history :: "(string \<rightharpoonup> (real \<times> real) list) option" where
  "sample_history = Some [''prices'' \<mapsto> [(1, 100), (2, 104), (3, 100.88)]]"


section \<open>The DEX agent: \<^verbatim>\<open>calculateDexRiskAssessment\<close>\<close>

text \<open>
  A trading pair. The nested objects of \<^verbatim>\<open>TokenPair\<close> are read through \<^verbatim>\<open>?.\<close> and
  \<^verbatim>\<open>|| 0\<close>, so each number may be missing; \<open>or0\<close> is \<^verbatim>\<open>x || 0\<close>.
\<close>

record TokenPair =
  chainId :: string
  dexId :: string
  url :: string
  baseToken_name :: string
  baseToken_symbol :: string
  priceUsd :: "string option"
  liquidity_usd :: "real option"
  volume_h24 :: "real option"
  priceChange_h24 :: "real option"
  txns_h24_buys :: "real option"
  txns_h24_sells :: "real option"
  fdv :: "real option"
  marketCap :: "real option"

definition or0 :: "real option \<Rightarrow> real" where
  "or0 x = (case x of None \<Rightarrow> 0 | Some v \<Rightarrow> v)"

definition orNull :: "real option \<Rightarrow> real option" where
  "orNull x = (case x of None \<Rightarrow> None | Some v \<Rightarrow> if v = 0 then None else Some v)"

record DexRiskAssessment =
  da_tokenSymbol :: string
  da_tokenName :: string
  da_chain :: string
  da_dex :: string
  da_priceUsd :: "string option"
  da_liquidity :: real
  da_volume24h :: real
  da_marketCap :: "real option"
  da_fdv :: "real option"
  buyToSellRatio :: real
  da_priceChange24h :: real
  da_riskScore :: real
  da_riskLevel :: risk_level
  da_liquidityScore :: real
  da_liquidityLevel :: risk_level
  da_redFlags :: "string list"
  da_positiveIndicators :: "string list"
  da_tokenUrl :: string

text \<open>
  The six liquidity tiers: sub-score, level, and the flag or indicator pushed (none in
  the fifth tier).
\<close>

definition assessLiquidity ::
  "(real \<Rightarrow> string) \<Rightarrow> real \<Rightarrow> real \<times> risk_level \<times> string list \<times> string list" where
  "assessLiquidity formatNumber totalLiquidity =
    (if totalLiquidity < 10000 then
       (90, Low, [''Extremely low liquidity (<$10K) creates high vulnerability to price manipulation''], [])
     else if totalLiquidity < 50000 then
       (70, Low, [''Very low liquidity (<$50K) suggests high risk of price manipulation''], [])
     else if totalLiquidity < 100000 then
       (60, Low, [''Low liquidity (<$100K) may lead to high price impact on trades''], [])
     else if totalLiquidity < 500000 then
       (50, Medium, [''Moderate liquidity (<$500K) means larger trades will have notable price impact''], [])
     else if totalLiquidity < 1000000 then
       (30, Medium, [], [])
     else if totalLiquidity \<ge> 1000000 then
       (10, High, [], [''Strong liquidity of $'' @ formatNumber totalLiquidity
                        @ '' reduces price impact risk''])
     else (0, Medium, [], []))"

text \<open>
  \<^verbatim>\<open>calculateDexRiskAssessment\<close>. The number formatting of the runtime library
  (\<^verbatim>\<open>toLocaleString\<close>, \<^verbatim>\<open>toFixed(2)\<close>) is passed in as \<open>formatNumber\<close> and \<open>toFixed2\<close>.
\<close>

definition calculateDexRiskAssessment ::
  "(real \<Rightarrow> string) \<Rightarrow> (real \<Rightarrow> string) \<Rightarrow> TokenPair \<Rightarrow> TokenPair list \<Rightarrow> DexRiskAssessment" where
  "calculateDexRiskAssessment formatNumber toFixed2 primaryPair allPairs =
    (let totalLiquidity = foldl (\<lambda>sum pair. sum + or0 (liquidity_usd pair)) 0 allPairs;
         totalVolume24h = foldl (\<lambda>sum pair. sum + or0 (volume_h24 pair)) 0 allPairs;
         totalBuys = or0 (txns_h24_buys primaryPair);
         totalSells = or0 (txns_h24_sells primaryPair);
         ratio = (if totalSells > 0 then totalBuys / totalSells
                  else if totalBuys > 0 then 2 else 1);
         priceChange24h = or0 (priceChange_h24 primaryPair)
     in case assessLiquidity formatNumber totalLiquidity of
        (liquidityScore, liquidityLevel, red0, pos0) \<Rightarrow>
      (let red1 = (if totalVolume24h < 1000 then
                     red0 @ [''Extremely low trading volume (<$1K) indicates limited market interest'']
                   else if totalVolume24h < 10000 then
                     red0 @ [''Very low trading volume (<$10K) suggests limited market activity'']
                   else red0);
           pos1 = (if \<not> totalVolume24h < 1000 \<and> \<not> totalVolume24h < 10000
                      \<and> totalVolume24h > 1000000 then
                     pos0 @ [''High trading volume of $'' @ formatNumber totalVolume24h
                             @ '' indicates strong market interest'']
                   else pos0);
           volumeToLiquidityRatio =
             (if totalLiquidity > 0 then totalVolume24h / totalLiquidity else 0);
           red2 = push_if (volumeToLiquidityRatio < 0.05)
                    ''Very low volume-to-liquidity ratio indicates stagnant trading'' red1;
           pos2 = push_if (\<not> volumeToLiquidityRatio < 0.05 \<and> volumeToLiquidityRatio > 1)
                    ''Healthy volume-to-liquidity ratio indicates active trading'' pos1;
           red3 = push_if (ratio < 0.5)
                    ''Significantly more sells than buys in the last 24 hours'' red2;
           pos3 = push_if (\<not> ratio < 0.5 \<and> ratio > 2)
                    ''More buys than sells in the last 24 hours'' pos2;
           red4 = (if priceChange24h < - 20 then
                     red3 @ [''Sharp price decrease of '' @ toFixed2 priceChange24h
                             @ ''% in the last 24 hours'']
                   else if priceChange24h > 50 then
                     red3 @ [''Suspicious price increase of +'' @ toFixed2 priceChange24h
                             @ ''% in the last 24 hours'']
                   else red3);
           pos4 = (if \<not> priceChange24h < - 20 \<and> \<not> priceChange24h > 50
                      \<and> priceChange24h > 10 \<and> priceChange24h < 50 then
                     pos3 @ [''Positive price movement of +'' @ toFixed2 priceChange24h
                             @ ''% in the last 24 hours'']
                   else pos3);
           uniqueDexes = length (remdups (map dexId allPairs));
           pos5 = (if uniqueDexes > 3 then
                     pos4 @ [''Listed on '' @ string_of_nat uniqueDexes
                             @ '' different DEXes, suggesting wider adoption'']
                   else pos4);
           riskScore0 = (50::real);
           riskScore1 = riskScore0 + liquidityScore;
           riskScore2 = riskScore1 + (if totalVolume24h < 1000 then 20
                                      else if totalVolume24h < 10000 then 10
                                      else if totalVolume24h > 1000000 then - 10
                                      else 0);
           riskScore3 = riskScore2 + (if ratio < 0.5 then 15
                                      else if ratio > 2 then - 10
                                      else 0);
           riskScore4 = riskScore3 + (if priceChange24h < - 20 then 10
                                      else if priceChange24h > 50 then 15
                                      else 0);
           riskScore5 = riskScore4 + (if uniqueDexes > 3 then - 10 else 0);
           riskScore = max 0 (min 100 riskScore5);
           riskLevel = (if riskScore < 40 then Low else if riskScore > 70 then High else Medium)
       in \<lparr> da_tokenSymbol = baseToken_symbol primaryPair,
             da_tokenName = baseToken_name primaryPair,
             da_chain = chainId primaryPair,
             da_dex = dexId primaryPair,
             da_priceUsd = (if truthy (priceUsd primaryPair) then priceUsd primaryPair else None),
             da_liquidity = totalLiquidity,
             da_volume24h = totalVolume24h,
             da_marketCap = orNull (marketCap primaryPair),
             da_fdv = orNull (fdv primaryPair),
             buyToSellRatio = ratio,
             da_priceChange24h = priceChange24h,
             da_riskScore = riskScore,
             da_riskLevel = riskLevel,
             da_liquidityScore = liquidityScore,
             da_liquidityLevel = liquidityLevel,
             da_redFlags = red4,
             da_positiveIndicators = pos5,
             da_tokenUrl = url primaryPair \<rparr>))"


text \<open>
  A sample pair with liquidity 1,000,000 and 24h volume 100,000; the 24h buys and sells
  are left open. \<open>sample_format\<close> is the rendering of 1000000, the only number that is
  formatted at this input.
\<close>

definition sample_pair :: "real \<Rightarrow> real \<Rightarrow> TokenPair" where
  "sample_pair buys sells =
     \<lparr> chainId = ''ethereum'', dexId = ''uniswap'',
       url = ''https://dexscreener.com/ethereum/0x1234'',
       baseToken_name = ''Test Token'', baseToken_symbol = ''TEST'',
       priceUsd = Some ''100'', liquidity_usd = Some 1000000, volume_h24 = Some 100000,
       priceChange_h24 = None, txns_h24_buys = Some buys, txns_h24_sells = Some sells,
       fdv = None, marketCap = None \<rparr>"

definition sample_format :: "real \<Rightarrow> string" where
  "sample_format x = ''1,000,000''"

text \<open>The sample pair with 3 buys and 1 sell, a 24h volume of 1,000,000, on a given venue.\<close>

definition sample_pair_on :: "string \<Rightarrow> TokenPair" where
  "sample_pair_on venue = (sample_pair 3 1)\<lparr> dexId := venue, volume_h24 := Some 1000000 \<rparr>"


section \<open>Properties of the aggregation\<close>

lemma accumulate_cases:
  "accumulate b s m d =
    (\<lparr>blockchain = (case b of None \<Rightarrow> 0 | Some bd \<Rightarrow> bc_riskScore bd),
      social = (case s of None \<Rightarrow> 0 | Some sd \<Rightarrow> normalizedScore sd),
      market = (case m of None \<Rightarrow> 0 | Some md \<Rightarrow> mk_riskScore md),
      dex = (case d of None \<Rightarrow> 0 | Some dd \<Rightarrow> dx_dex_risk_score dd)\<rparr>,
     (case b of None \<Rightarrow> 0 | Some bd \<Rightarrow> bc_riskScore bd * 0.35)
       + (case s of None \<Rightarrow> 0 | Some sd \<Rightarrow> normalizedScore sd * 0.2)
       + (case m of None \<Rightarrow> 0 | Some md \<Rightarrow> mk_riskScore md * 0.25)
       + (case d of None \<Rightarrow> 0 | Some dd \<Rightarrow> dx_dex_risk_score dd * 0.2),
     (case b of None \<Rightarrow> 0 | Some bd \<Rightarrow> 0.35) + (case s of None \<Rightarrow> 0 | Some sd \<Rightarrow> 0.2)
       + (case m of None \<Rightarrow> 0 | Some md \<Rightarrow> 0.25) + (case d of None \<Rightarrow> 0 | Some dd \<Rightarrow> 0.2))"
  by (cases b; cases s; cases m; cases d) (simp_all add: accumulate_def)


lemma breakdown_unfold:
  "riskBreakdown (calculateComprehensiveRisk pid b s m d now) = fst (accumulate b s m d)"
  by (simp add: calculateComprehensiveRisk_def Let_def split: prod.splits)

lemma component_unfold:
  "blockchainRisk (calculateComprehensiveRisk pid b s m d now) = None \<longleftrightarrow> b = None"
  "socialRisk (calculateComprehensiveRisk pid b s m d now) = None \<longleftrightarrow> s = None"
  "marketRisk (calculateComprehensiveRisk pid b s m d now) = None \<longleftrightarrow> m = None"
  "dexRisk (calculateComprehensiveRisk pid b s m d now) = None \<longleftrightarrow> d = None"
  by (simp_all add: calculateComprehensiveRisk_def Let_def split: prod.splits)






text \<open>
  C2, as the code has it. The breakdown is a record of four numbers, initialised to 0,
  so an absent category is not omitted from it: it is listed with the value 0. What is
  omitted is the detail component of the category (\<^verbatim>\<open>blockchainRisk\<close>, \<^verbatim>\<open>socialRisk\<close>,
  \<^verbatim>\<open>marketRisk\<close>, \<^verbatim>\<open>dexRisk\<close>), and the total weight, the denominator of the overall
  score, is the sum of the weights of the other categories that are present.
\<close>

theorem absent_category_zero_and_unweighted:
  assumes "signal_score b s m d c = None"
  shows "breakdown_of (riskBreakdown (calculateComprehensiveRisk pid b s m d now)) c = 0
       \<and> component_of (calculateComprehensiveRisk pid b s m d now) c = None
       \<and> total_weight b s m d
           = (\<Sum>c'\<leftarrow>filter (\<lambda>c'. c' \<noteq> c) (present b s m d). spec_weight c')"
  using assms
  by (cases c; cases b; cases s; cases m; cases d)
     (simp_all add: breakdown_unfold component_unfold accumulate_cases present_def
        categories_def total_weight_def)

text \<open>
  Market and DEX data only: the blockchain entry of the breakdown is 0, there is no
  blockchain component, and the total weight is \<open>0.25 + 0.20\<close>.
\<close>

theorem absent_category_zero_and_unweighted_witness:
  "signal_score None None (Some (sample_market 40)) (Some (sample_dex 60)) Blockchain = None
   \<and> blockchain (riskBreakdown (calculateComprehensiveRisk ''TEST''
        None None (Some (sample_market 40)) (Some (sample_dex 60)) ''2024-01-01'')) = 0
   \<and> blockchainRisk (calculateComprehensiveRisk ''TEST''
        None None (Some (sample_market 40)) (Some (sample_dex 60)) ''2024-01-01'') = None
   \<and> total_weight None None (Some (sample_market 40)) (Some (sample_dex 60)) = 0.45"
proof -
  have a: "signal_score None None (Some (sample_market 40)) (Some (sample_dex 60)) Blockchain
             = None"
    by simp
  show ?thesis
    using absent_category_zero_and_unweighted [OF a, of "''TEST''" "''2024-01-01''"]
    by (simp add: present_def categories_def)
qed

text \<open>
  The breakdown of an assessment without blockchain data does hold a blockchain entry,
  and its value is 0.
\<close>

theorem absent_category_listed_as_zero_counterexample:
  "signal_score None None (Some (sample_market 40)) None Blockchain = None
   \<and> breakdown_of (riskBreakdown (calculateComprehensiveRisk ''TEST''
        None None (Some (sample_market 40)) None ''2024-01-01'')) Blockchain = 0"
  by (simp add: breakdown_unfold accumulate_cases)

text \<open>
  C3, as the code has it. With no signal at all \<^verbatim>\<open>calculateComprehensiveRisk\<close> returns
  the overall score 50 and the level Medium; the breakdown lists the four categories
  with 0, and both factor lists are empty: no factor explains the lack of data. The
  notice of insufficient data is the error that the capability returns in place of an
  assessment.
\<close>

theorem no_signal_neutral_default:
  "overallRiskScore (calculateComprehensiveRisk pid None None None None now) = 50
   \<and> overallRiskLevel (calculateComprehensiveRisk pid None None None None now) = Medium
   \<and> riskBreakdown (calculateComprehensiveRisk pid None None None None now)
       = \<lparr>blockchain = 0, social = 0, market = 0, dex = 0\<rparr>
   \<and> riskFactors (calculateComprehensiveRisk pid None None None None now) = []
   \<and> positiveFactors (calculateComprehensiveRisk pid None None None None now) = []
   \<and> performRiskAssessment pid None None None None now
       = Inl (''Insufficient data available for '' @ pid)"
  by (simp add: calculateComprehensiveRisk_def accumulate_cases compileRiskFactors_def
        compilePositiveFactors_def performRiskAssessment_def)

theorem no_signal_neutral_default_witness:
  "overallRiskScore (calculateComprehensiveRisk ''TEST'' None None None None ''2024-01-01'') = 50
   \<and> overallRiskLevel (calculateComprehensiveRisk ''TEST'' None None None None ''2024-01-01'')
       = Medium
   \<and> riskFactors (calculateComprehensiveRisk ''TEST'' None None None None ''2024-01-01'') = []
   \<and> performRiskAssessment ''TEST'' None None None None ''2024-01-01''
       = Inl ''Insufficient data available for TEST''"
  using no_signal_neutral_default [of "''TEST''" "''2024-01-01''"] by simp

text \<open>
  The assessment computed from no signal has no risk factor, not one, and its breakdown
  is not empty.
\<close>

theorem no_signal_single_factor_counterexample:
  "length (riskFactors (calculateComprehensiveRisk ''TEST'' None None None None ''2024-01-01''))
     \<noteq> 1
   \<and> riskBreakdown (calculateComprehensiveRisk ''TEST'' None None None None ''2024-01-01'')
     = \<lparr>blockchain = 0, social = 0, market = 0, dex = 0\<rparr>"
  by (simp add: calculateComprehensiveRisk_def accumulate_cases compileRiskFactors_def)





section \<open>Properties of the blockchain scorer\<close>

lemma metrics_empty:
  "calculateConcentrationMetrics []
     = \<lparr>topHolderPercentage = 0, top10Percentage = 0, holderCount = 0\<rparr>"
  by (simp add: calculateConcentrationMetrics_def)

lemma age_sample: "ageInDays sample_now 1600000000 = 1157"
  by (simp add: ageInDays_def sample_now_def)

lemma score_unverified_bare:
  "calculateBlockchainRiskScore False ci ti [] txs [] now =
     min 100 (50 + (if truthy (implementation ci) then 20 else 0)
                + (if truthy (ti_name ti) \<and> truthy (ti_symbol ti) then 0 else 10)
                + (case createdTimestamp ci of
                     None \<Rightarrow> 5
                   | Some ts \<Rightarrow> if ageInDays now ts < 7 then 20
                               else if ageInDays now ts < 30 then 10
                               else if ageInDays now ts < 90 then 5 else 0))"
  by (simp add: calculateBlockchainRiskScore_def metrics_empty Let_def split: option.splits)

lemma sample_proxy_score:
  "calculateBlockchainRiskScore False (sample_contract (Some 1600000000) (Some ''0xabc''))
      sample_token [] [] [] sample_now = 70"
  by (simp add: score_unverified_bare sample_contract_def sample_token_def truthy_def age_sample)

lemma sample_proxy_result_score:
  "br_riskScore (assessBlockchainRisk False (sample_contract (Some 1600000000) (Some ''0xabc''))
      sample_token [] [] [] sample_now) = 70"
  using sample_proxy_score by (simp add: assessBlockchainRisk_def Let_def)





section \<open>Properties of the risk levels\<close>

lemma level_bucket: "(if x < 40 then Low else if x > 70 then High else Medium) = risk_level_of x"
  by (simp add: risk_level_of_def)

lemma level_bucket_twitter:
  "(if x > 70 then High else if x < 40 then Low else Medium) = risk_level_of x"
  by (simp add: risk_level_of_def)

lemma level_bucket_blockchain:
  "(if x \<ge> 70 then High else if x \<ge> 40 then Medium else Low) = blockchain_level_of x"
  by (simp add: blockchain_level_of_def)

lemma overall_level:
  "overallRiskLevel (calculateComprehensiveRisk pid b s m d now)
     = risk_level_of (overallRiskScore (calculateComprehensiveRisk pid b s m d now))"
  by (simp add: calculateComprehensiveRisk_def Let_def level_bucket split: prod.splits)

lemma twitter_level:
  "tw_riskLevel (calculateTwitterRiskAssessment tweetSentiments user)
     = risk_level_of (tw_riskScore (calculateTwitterRiskAssessment tweetSentiments user))"
proof (cases "length tweetSentiments = 0")
  case True
  then show ?thesis by (simp add: calculateTwitterRiskAssessment_def risk_level_of_def)
next
  case False
  show ?thesis
    apply (simp only: calculateTwitterRiskAssessment_def Let_def False if_False)
    apply (simp only: TwitterRiskAssessment.simps)
    apply (rule level_bucket_twitter)
    done
qed

lemma market_level:
  "ma_riskLevel (calculateMarketRiskAssessment c h)
     = risk_level_of (ma_riskScore (calculateMarketRiskAssessment c h))"
  apply (simp only: calculateMarketRiskAssessment_def Let_def)
  apply (simp only: MarketRiskAssessment.simps)
  apply (rule level_bucket)
  done

lemma dex_level:
  "da_riskLevel (calculateDexRiskAssessment f g p ps)
     = risk_level_of (da_riskScore (calculateDexRiskAssessment f g p ps))"
proof -
  obtain ls ll r0 p0 where a:
    "assessLiquidity f (foldl (\<lambda>sum pair. sum + or0 (liquidity_usd pair)) 0 ps)
       = (ls, ll, r0, p0)"
    by (cases "assessLiquidity f (foldl (\<lambda>sum pair. sum + or0 (liquidity_usd pair)) 0 ps)") auto
  show ?thesis
    apply (simp only: calculateDexRiskAssessment_def Let_def a prod.case)
    apply (simp only: DexRiskAssessment.simps)
    apply (rule level_bucket)
    done
qed

lemma blockchain_level:
  "br_riskLevel (assessBlockchainRisk v ci ti hs txs ps now)
     = blockchain_level_of (br_riskScore (assessBlockchainRisk v ci ti hs txs ps now))"
  apply (simp only: assessBlockchainRisk_def Let_def)
  apply (simp only: BlockchainRiskResult.simps)
  apply (rule level_bucket_blockchain)
  done

text \<open>
  C4, as the code has it. The aggregation and the social, market and DEX scorers bucket
  their score alike: below 40 Low, from 40 through 70 Medium, above 70 High. The
  blockchain assessment draws the upper boundary one point lower: below 40 Low, from 40
  to below 70 Medium, from 70 on High. So 39 is Low, 40 is Medium and 71 is High
  everywhere, while 70 is Medium in four of the components and High in the blockchain
  assessment.
\<close>

theorem risk_level_bucketing:
  "overallRiskLevel (calculateComprehensiveRisk pid b s m d now)
     = risk_level_of (overallRiskScore (calculateComprehensiveRisk pid b s m d now))
   \<and> tw_riskLevel (calculateTwitterRiskAssessment tweetSentiments user)
     = risk_level_of (tw_riskScore (calculateTwitterRiskAssessment tweetSentiments user))
   \<and> ma_riskLevel (calculateMarketRiskAssessment coinData priceHistory)
     = risk_level_of (ma_riskScore (calculateMarketRiskAssessment coinData priceHistory))
   \<and> da_riskLevel (calculateDexRiskAssessment formatNumber toFixed2 primaryPair allPairs)
     = risk_level_of
         (da_riskScore (calculateDexRiskAssessment formatNumber toFixed2 primaryPair allPairs))
   \<and> br_riskLevel (assessBlockchainRisk isVerified contractInfo tokenInfo holders txs
                      codePatterns t)
     = blockchain_level_of
         (br_riskScore (assessBlockchainRisk isVerified contractInfo tokenInfo holders txs
                          codePatterns t))
   \<and> risk_level_of 39 = Low \<and> risk_level_of 40 = Medium
   \<and> risk_level_of 70 = Medium \<and> risk_level_of 71 = High
   \<and> blockchain_level_of 39 = Low \<and> blockchain_level_of 40 = Medium
   \<and> blockchain_level_of 70 = High \<and> blockchain_level_of 71 = High"
  by (simp add: overall_level twitter_level market_level dex_level blockchain_level
        risk_level_of_def blockchain_level_of_def)

text \<open>
  At a blockchain assessment of score 70 and at an aggregation over a single market
  signal of score 70.
\<close>

theorem risk_level_bucketing_witness:
  "br_riskScore (assessBlockchainRisk False (sample_contract (Some 1600000000) (Some ''0xabc''))
      sample_token [] [] [] sample_now) = 70
   \<and> br_riskLevel (assessBlockchainRisk False (sample_contract (Some 1600000000) (Some ''0xabc''))
      sample_token [] [] [] sample_now) = blockchain_level_of 70
   \<and> overallRiskLevel (calculateComprehensiveRisk ''TEST'' None None
        (Some (sample_market 70)) None ''2024-01-01'')
      = risk_level_of (overallRiskScore (calculateComprehensiveRisk ''TEST'' None None
        (Some (sample_market 70)) None ''2024-01-01''))
   \<and> risk_level_of 70 = Medium \<and> blockchain_level_of 70 = High"
  using risk_level_bucketing [of "''TEST''" None None "Some (sample_market 70)" None
          "''2024-01-01''" "[]" None "sample_coin 1" None sample_format sample_format
          "sample_pair 1 1" "[]" False
          "sample_contract (Some 1600000000) (Some ''0xabc'')" sample_token "[]" "[]" "[]"
          sample_now]
  by (simp add: sample_proxy_result_score)

text \<open>
  An unverified proxy contract with name and symbol, 1157 days old, has the score
  \<open>50 + 20 = 70\<close>, and the blockchain assessment reports the level High for it.
\<close>

theorem blockchain_seventy_is_high_counterexample:
  "br_riskScore (assessBlockchainRisk False (sample_contract (Some 1600000000) (Some ''0xabc''))
      sample_token [] [] [] sample_now) = 70
   \<and> br_riskLevel (assessBlockchainRisk False (sample_contract (Some 1600000000) (Some ''0xabc''))
      sample_token [] [] [] sample_now) = High"
  using sample_proxy_score by (simp add: assessBlockchainRisk_def Let_def)


section \<open>Properties of the social scorer\<close>







section \<open>Properties of the market scorer\<close>

lemma sample_volatility: "calculatePriceVolatility [100, 104, 100.88] = Fin 0.035"
proof -
  have u: "[1..<3] = [1, 2]" by code_simp
  have s: "sqrt (49 / 40000) = 7 / 200"
    by (rule real_sqrt_unique) (simp_all add: power2_eq_square)
  show ?thesis
    by (simp add: calculatePriceVolatility_def Let_def u js_sub_def s)
qed

lemma sample_ratio:
  "js_div (Fin (total_volume (sample_coin rank))) (Fin (market_cap (sample_coin rank)))
     = Fin 0.07"
  by (simp add: sample_coin_def)

lemma sample_series:
  "(case sample_history of None \<Rightarrow> None | Some h \<Rightarrow> h ''prices'')
     = Some [(1, 100), (2, 104), (3, 100.88)]"
  by (simp add: sample_history_def)

lemma market_sample_score:
  "ma_riskScore (calculateMarketRiskAssessment (sample_coin rank) sample_history)
     = 50 + (if rank \<le> 10 then - 15 else if rank \<le> 50 then - 10 else if rank \<le> 100 then - 5
             else if rank > 500 then 10 else 0)"
  apply (simp only: calculateMarketRiskAssessment_def Let_def)
  apply (simp only: MarketRiskAssessment.simps sample_series sample_ratio)
  apply (simp only: option.simps the_def list.size option.sel list.map snd_conv sample_volatility)
  apply (simp add: sample_coin_def)
  done

lemma rank_tier:
  fixes r :: real
  assumes "r > 500"
  shows "(if r \<le> 10 then - 15 else if r \<le> 50 then - 10 else if r \<le> 100 then - 5
          else if r > 500 then 10 else if r > 1000 then 15 else 0) = (10::real)"
  using assms by simp

text \<open>
  Two coins of rank above 500 that agree in market capitalisation, volume and distance
  from the all-time high have the same score, whatever their ranks: no rank earns the
  addend 15.
\<close>

lemma rank_above_500_all_alike:
  assumes "market_cap_rank c > 500" and "market_cap_rank c' > 500"
    and "market_cap c' = market_cap c" and "total_volume c' = total_volume c"
    and "ath_change_percentage c' = ath_change_percentage c"
  shows "ma_riskScore (calculateMarketRiskAssessment c h)
       = ma_riskScore (calculateMarketRiskAssessment c' h)"
  apply (simp only: calculateMarketRiskAssessment_def Let_def)
  apply (simp only: MarketRiskAssessment.simps assms(3-5)
           rank_tier [OF assms(1)] rank_tier [OF assms(2)])
  done

text \<open>
  C6. The source tests \<^verbatim>\<open>market_cap_rank > 500\<close> before \<^verbatim>\<open>market_cap_rank > 1000\<close>, so the
  branch that adds 15 is never taken: with every other factor in its neutral tier a coin
  of rank 1001 scores \<open>50 + 10 = 60\<close>, as a coin of rank 501 does, and not 65. A coin of
  rank 300 scores 50.
\<close>

theorem rank_above_1000_adds_ten:
  "ma_riskScore (calculateMarketRiskAssessment (sample_coin 1001) sample_history) = 60
   \<and> ma_riskScore (calculateMarketRiskAssessment (sample_coin 501) sample_history) = 60
   \<and> ma_riskScore (calculateMarketRiskAssessment (sample_coin 300) sample_history) = 50"
  by (simp add: market_sample_score)


section \<open>Properties of the DEX scorer\<close>



lemma sample_liquidity:
  "assessLiquidity sample_format 1000000
     = (10, High, [], [''Strong liquidity of $1,000,000 reduces price impact risk''])"
  by (simp add: assessLiquidity_def sample_format_def)



text \<open>
  The bound is attained: liquidity and volume of 4,000,000 in total over four venues,
  with three buys for one sell, give \<open>50 + 10 - 10 - 10 - 10 = 30\<close>.
\<close>

lemma dex_score_30_attained:
  "da_riskScore (calculateDexRiskAssessment formatNumber toFixed2 (sample_pair_on ''uniswap'')
      [sample_pair_on ''uniswap'', sample_pair_on ''sushiswap'', sample_pair_on ''curve'',
       sample_pair_on ''balancer'']) = 30"
proof -
  let ?ps = "[sample_pair_on ''uniswap'', sample_pair_on ''sushiswap'', sample_pair_on ''curve'',
       sample_pair_on ''balancer'']"
  have l: "foldl (\<lambda>sum pair. sum + or0 (liquidity_usd pair)) 0 ?ps = 4000000"
    by (simp add: sample_pair_on_def sample_pair_def or0_def)
  have v: "foldl (\<lambda>sum pair. sum + or0 (volume_h24 pair)) 0 ?ps = 4000000"
    by (simp add: sample_pair_on_def sample_pair_def or0_def)
  have f: "or0 (txns_h24_buys (sample_pair_on ''uniswap'')) = 3"
          "or0 (txns_h24_sells (sample_pair_on ''uniswap'')) = 1"
          "or0 (priceChange_h24 (sample_pair_on ''uniswap'')) = 0"
    by (simp_all add: sample_pair_on_def sample_pair_def or0_def)
  have u: "length (remdups (map dexId ?ps)) = 4"
    by (simp add: sample_pair_on_def sample_pair_def)
  obtain ll r0 p0 where a: "assessLiquidity formatNumber 4000000 = (10, ll, r0, p0)"
    by (simp add: assessLiquidity_def)
  show ?thesis
    apply (simp only: calculateDexRiskAssessment_def Let_def l v f u a prod.case)
    apply (simp only: DexRiskAssessment.simps)
    apply simp
    done
qed

lemma dex_ratio:
  "buyToSellRatio (calculateDexRiskAssessment f g p ps)
     = (if or0 (txns_h24_sells p) > 0 then or0 (txns_h24_buys p) / or0 (txns_h24_sells p)
        else if or0 (txns_h24_buys p) > 0 then 2 else 1)"
proof -
  obtain ls ll r0 p0 where a:
    "assessLiquidity f (foldl (\<lambda>sum pair. sum + or0 (liquidity_usd pair)) 0 ps)
       = (ls, ll, r0, p0)"
    by (cases "assessLiquidity f (foldl (\<lambda>sum pair. sum + or0 (liquidity_usd pair)) 0 ps)") auto
  show ?thesis
    apply (simp only: calculateDexRiskAssessment_def Let_def a prod.case)
    apply (simp only: DexRiskAssessment.simps)
    done
qed

text \<open>
  C7. \<^verbatim>\<open>calculateDexRiskAssessment\<close> computes the buy/sell ratio as the claim defines it,
  but neither a volume per transaction nor a flag for a suspicious imbalance: for 100
  buys, 10 sells and a volume of 100,000 the ratio is 10, no red flag is raised, the
  imbalance is reported among the positive indicators, and it lowers the risk score
  (\<open>50 + 10 - 10 = 50\<close>). With no sells the ratio is 2 for 5 buys and 1 for no buys.
\<close>

theorem dex_imbalance_counted_positive:
  "buyToSellRatio (calculateDexRiskAssessment sample_format sample_format
      (sample_pair 100 10) [sample_pair 100 10]) = 10
   \<and> da_redFlags (calculateDexRiskAssessment sample_format sample_format
      (sample_pair 100 10) [sample_pair 100 10]) = []
   \<and> da_positiveIndicators (calculateDexRiskAssessment sample_format sample_format
      (sample_pair 100 10) [sample_pair 100 10])
       = [''Strong liquidity of $1,000,000 reduces price impact risk'',
          ''More buys than sells in the last 24 hours'']
   \<and> da_riskScore (calculateDexRiskAssessment sample_format sample_format
      (sample_pair 100 10) [sample_pair 100 10]) = 50
   \<and> buyToSellRatio (calculateDexRiskAssessment sample_format sample_format
      (sample_pair 5 0) [sample_pair 5 0]) = 2
   \<and> buyToSellRatio (calculateDexRiskAssessment sample_format sample_format
      (sample_pair 0 0) [sample_pair 0 0]) = 1"
proof -
  have l: "foldl (\<lambda>sum pair. sum + or0 (liquidity_usd pair)) 0 [sample_pair 100 10] = 1000000"
    by (simp add: sample_pair_def or0_def)
  have v: "foldl (\<lambda>sum pair. sum + or0 (volume_h24 pair)) 0 [sample_pair 100 10] = 100000"
    by (simp add: sample_pair_def or0_def)
  have f: "or0 (txns_h24_buys (sample_pair 100 10)) = 100"
          "or0 (txns_h24_sells (sample_pair 100 10)) = 10"
          "or0 (priceChange_h24 (sample_pair 100 10)) = 0"
          "map dexId [sample_pair 100 10] = [''uniswap'']"
    by (simp_all add: sample_pair_def or0_def)
  have z: "buyToSellRatio (calculateDexRiskAssessment sample_format sample_format
      (sample_pair 5 0) [sample_pair 5 0]) = 2"
     "buyToSellRatio (calculateDexRiskAssessment sample_format sample_format
      (sample_pair 0 0) [sample_pair 0 0]) = 1"
    by (simp_all add: dex_ratio sample_pair_def or0_def)
  have m: "buyToSellRatio (calculateDexRiskAssessment sample_format sample_format
      (sample_pair 100 10) [sample_pair 100 10]) = 10
   \<and> da_redFlags (calculateDexRiskAssessment sample_format sample_format
      (sample_pair 100 10) [sample_pair 100 10]) = []
   \<and> da_positiveIndicators (calculateDexRiskAssessment sample_format sample_format
      (sample_pair 100 10) [sample_pair 100 10])
       = [''Strong liquidity of $1,000,000 reduces price impact risk'',
          ''More buys than sells in the last 24 hours'']
   \<and> da_riskScore (calculateDexRiskAssessment sample_format sample_format
      (sample_pair 100 10) [sample_pair 100 10]) = 50"
    apply (simp only: calculateDexRiskAssessment_def Let_def l v f sample_liquidity prod.case)
    apply (simp only: DexRiskAssessment.simps)
    apply (simp add: push_if_def)
    done
  show ?thesis using m z by blast
qed

end
